theory Spec2Isabelle
  imports Main
begin

section \<open>Values shared by the two facades\<close>

text \<open>
  The development embeds two classes of the repository: \<open>RestApi\<close> (API Gateway) and
  \<open>Group\<close> (IAM). Both are constructs: nodes of a definition tree, created once and
  then configured by method calls. A method that mutates \<open>this\<close> is a function that
  takes the object and returns it updated; a constructor or method that throws returns
  \<open>Inl\<close> of the error.

  A construct is identified by its path in the tree (the identifiers from the root down).
  An attribute of a generated resource whose value is only known at deployment time
  (\<open>resource.ref\<close>, \<open>group.groupArn\<close>) is a symbolic \<open>Attr\<close> token naming the
  construct and the attribute read.
\<close>

datatype token =
    Lit string
  | Attr "string list" string
  | Join "token list"

text \<open>JavaScript's \<open>s.startsWith(p)\<close>.\<close>

definition startsWith :: "string \<Rightarrow> string \<Rightarrow> bool" where
  "startsWith s p = (take (length p) s = p)"

text \<open>
  JavaScript's \<open>a || b\<close> for an optional string \<open>a\<close>: \<open>undefined\<close> and the empty
  string are both falsy, so both give \<open>b\<close>.
\<close>

definition or_else :: "string option \<Rightarrow> string \<Rightarrow> string" where
  "or_else a b = (case a of None \<Rightarrow> b | Some s \<Rightarrow> if s = [] then b else s)"

text \<open>A parameter with a default value: an omitted argument (\<open>None\<close>) takes the default.\<close>

definition with_default :: "'a \<Rightarrow> 'a option \<Rightarrow> 'a" where
  "with_default d a = (case a of None \<Rightarrow> d | Some v \<Rightarrow> v)"

text \<open>The argument of \<open>cdk.Arn.fromComponents\<close>, with the fields this code passes.\<close>

record ArnComponents =
  service :: string
  region :: "string option"
  account :: "string option"
  resource :: token
  sep :: "string option"
  resourceName :: "string option"


section \<open>RestApi\<close>

subsection \<open>Configuration\<close>

datatype ApiKeySourceType = Header | Authorizer

datatype EndpointType = Edge | Regional | Private

text \<open>
  \<open>StageOptions\<close>, \<open>Integration\<close>, \<open>Method\<close>, \<open>RestApiRef\<close> and
  \<open>cdk.PolicyDocument\<close> are declared outside the embedded file. \<open>RestApi\<close> reads
  \<open>stageName\<close> of the stage options and \<open>restApiId\<close> of the reference, and only
  stores or forwards the others.
\<close>

record StageOptions =
  stageName :: "string option"

datatype Integration = Integration string

datatype PolicyDocument = PolicyDocument "string list"

record RestApiRef =
  ref_restApiId :: token

record Method =
  httpMethod :: string
  integration :: "Integration option"

text \<open>
  \<open>RestApiProps\<close>: every option may be omitted. \<open>minimumCompressionSize\<close> is a
  JavaScript number that the constructor forwards and never computes with; it is
  an integer here.
\<close>

record RestApiProps =
  deploy :: "bool option"
  deployOptions :: "StageOptions option"
  retainDeployments :: "bool option"
  restApiName :: "string option"
  parameters :: "(string \<times> string) list option"
  policy :: "PolicyDocument option"
  description :: "string option"
  apiKeySourceType :: "ApiKeySourceType option"
  binaryMediaTypes :: "string list option"
  endpointTypes :: "EndpointType list option"
  failOnWarnings :: "bool option"
  minimumCompressionSize :: "int option"
  cloneFrom :: "RestApiRef option"
  cloudWatchRole :: "bool option"
  defaultIntegration :: "Integration option"

text \<open>The default of the constructor's \<open>props\<close> parameter, \<open>{ }\<close>.\<close>

definition no_props :: RestApiProps where
  "no_props = \<lparr>deploy = None, deployOptions = None, retainDeployments = None,
     restApiName = None, parameters = None, policy = None, description = None,
     apiKeySourceType = None, binaryMediaTypes = None, endpointTypes = None,
     failOnWarnings = None, minimumCompressionSize = None, cloneFrom = None,
     cloudWatchRole = None, defaultIntegration = None\<rparr>"

subsection \<open>Child constructs\<close>

text \<open>
  The children a \<open>RestApi\<close> creates. Each carries the identifier it was created under
  (the second constructor argument) and the properties passed to it. The classes
  themselves are declared outside the embedded file; a child is the record of its
  constructor call.
\<close>

record EndpointConfiguration =
  types :: "EndpointType list"

record RestApiResource =
  cfn_id :: string
  cfn_restApiName :: string
  cfn_description :: "string option"
  cfn_policy :: "PolicyDocument option"
  cfn_failOnWarnings :: "bool option"
  cfn_minimumCompressionSize :: "int option"
  cfn_binaryMediaTypes :: "string list option"
  cfn_endpointConfiguration :: "EndpointConfiguration option"
  cfn_apiKeySourceType :: "ApiKeySourceType option"
  cfn_cloneFrom :: "token option"
  cfn_parameters :: "(string \<times> string) list option"

text \<open>\<open>api: this\<close> is recorded as the path of the \<open>RestApi\<close>.\<close>

record Deployment =
  deployment_id :: string
  deployment_description :: string
  deployment_api :: "string list"
  deployment_retainDeployments :: "bool option"

text \<open>
  The stage's properties are \<open>{ deployment: ..., ...props.deployOptions }\<close>: the
  deployment, and the stage options spread after it (nothing when they are omitted).
\<close>

record Stage =
  stage_id :: string
  stage_deployment :: "Deployment option"
  stage_stageName :: "string option"

record Output =
  output_id :: string
  output_value :: string

record Role =
  role_id :: string
  assumedBy :: string
  role_managedPolicyArns :: "token list"

record AccountResource =
  account_id :: string
  cloudWatchRoleArn :: token
  dependencies :: "string list"

datatype child =
    RestApiResource_child RestApiResource
  | Deployment_child Deployment
  | Stage_child Stage
  | Output_child Output
  | Role_child Role
  | AccountResource_child AccountResource

subsection \<open>Collaborators taken as parameters\<close>

text \<open>
  Two functions the class calls are defined outside the embedded file and are parameters
  of the model: \<open>cdk.Arn.fromComponents\<close>, which formats an ARN, and
  \<open>Stage.urlForPath\<close>, which may throw (\<open>Inl\<close> of the message) or return the URL.
\<close>

record env =
  Arn_fromComponents :: "ArnComponents \<Rightarrow> token"
  Stage_urlForPath :: "Stage \<Rightarrow> string \<Rightarrow> string + string"

subsection \<open>Errors\<close>

text \<open>
  Every \<open>throw new Error(msg)\<close> of the class is one constructor, named after the
  failure kind and carrying the message: \<open>ConfigConflict\<close> is thrown by
  \<open>configureDeployment\<close>, \<open>ValidationError\<close> by \<open>executeApiArn\<close>, \<open>StateError\<close> by
  \<open>urlForPath\<close>. \<open>StageError\<close> is an exception thrown inside \<open>Stage.urlForPath\<close>,
  which propagates through the caller.
\<close>

datatype error =
    ConfigConflict string
  | ValidationError string
  | StateError string
  | StageError string

subsection \<open>The object\<close>

text \<open>
  The fields of a \<open>RestApi\<close>, with the path of the construct and its children in creation
  order. \<open>resourceApi\<close> is \<open>this\<close> itself and has no field. The field
  \<open>defaultIntegration\<close> of the object is \<open>this_defaultIntegration\<close>.
\<close>

record RestApi =
  node_path :: "string list"
  restApiId :: token
  resourceId :: token
  resourcePath :: string
  this_defaultIntegration :: "Integration option"
  latestDeployment :: "Deployment option"
  deploymentStage :: "Stage option"
  methods :: "Method list"
  children :: "child list"

subsection \<open>Methods\<close>

definition urlForPath :: "env \<Rightarrow> RestApi \<Rightarrow> string option \<Rightarrow> error + string" where
  \<open>urlForPath env this path_arg =
     (let path = with_default ''/'' path_arg in
      case deploymentStage this of
        None \<Rightarrow> Inl (StateError ''Cannot determine deployment stage for API from "deploymentStage". Use "deploy" or explicitly set "deploymentStage"'')
      | Some st \<Rightarrow>
          (case Stage_urlForPath env st path of
             Inl m \<Rightarrow> Inl (StageError m)
           | Inr u \<Rightarrow> Inr u))\<close>

definition url :: "env \<Rightarrow> RestApi \<Rightarrow> error + string" where
  "url env this = urlForPath env this None"

definition executeApiArn ::
  "env \<Rightarrow> RestApi \<Rightarrow> string option \<Rightarrow> string option \<Rightarrow> string option \<Rightarrow> error + token" where
  \<open>executeApiArn env this method_arg path_arg stage_arg =
     (let method = with_default ''*'' method_arg;
          path = with_default ''/*'' path_arg;
          stage = with_default ''*'' stage_arg in
      if \<not> startsWith path ''/'' then
        Inl (ValidationError (''"path" must begin with a "/": '' @ [CHR 0x27] @ path @ [CHR 0x27]))
      else
        Inr (Arn_fromComponents env
          \<lparr>service = ''execute-api'', region = None, account = None,
           resource = restApiId this, sep = Some ''/'',
           resourceName = Some (stage @ ''/'' @ method @ path)\<rparr>))\<close>

definition validate :: "RestApi \<Rightarrow> string list" where
  \<open>validate this =
     (if length (methods this) = 0 then [''The REST API doesn't contain any methods'']
      else [])\<close>

text \<open>\<open>_attachMethod\<close>: \<open>this.methods.push(method)\<close>.\<close>

definition attachMethod :: "RestApi \<Rightarrow> Method \<Rightarrow> RestApi" where
  "attachMethod this method = this\<lparr>methods := methods this @ [method]\<rparr>"

text \<open>The local \<open>stageName\<close> of \<open>configureDeployment\<close>.\<close>

definition deployStageName :: "RestApiProps \<Rightarrow> string" where
  "deployStageName props =
     or_else (case deployOptions props of None \<Rightarrow> None | Some opts \<Rightarrow> stageName opts) ''prod''"

definition configureDeployment :: "env \<Rightarrow> RestApiProps \<Rightarrow> RestApi \<Rightarrow> error + RestApi" where
  \<open>configureDeployment env props this =
     (let deploy = (case deploy props of None \<Rightarrow> True | Some d \<Rightarrow> d) in
      if deploy then
        (let deployment =
               \<lparr>deployment_id = ''Deployment'',
                deployment_description = ''Automatically created by the RestApi construct'',
                deployment_api = node_path this,
                deployment_retainDeployments = retainDeployments props\<rparr>;
             this1 = this\<lparr>latestDeployment := Some deployment,
                          children := children this @ [Deployment_child deployment]\<rparr>;
             stageName = deployStageName props;
             stage =
               \<lparr>stage_id = ''DeploymentStage.'' @ stageName,
                stage_deployment = latestDeployment this1,
                stage_stageName =
                  (case deployOptions props of None \<Rightarrow> None | Some opts \<Rightarrow> StageOptions.stageName opts)\<rparr>;
             this2 = this1\<lparr>deploymentStage := Some stage,
                           children := children this1 @ [Stage_child stage]\<rparr>
         in case urlForPath env this2 None of
              Inl e \<Rightarrow> Inl e
            | Inr u \<Rightarrow>
                Inr (this2\<lparr>children := children this2 @
                       [Output_child \<lparr>output_id = ''Endpoint'', output_value = u\<rparr>]\<rparr>))
      else
        (if deployOptions props \<noteq> None then
           Inl (ConfigConflict ''Cannot set 'deployOptions' if 'deploy' is disabled'')
         else Inr this))\<close>

definition configureCloudWatchRole :: "env \<Rightarrow> RestApiResource \<Rightarrow> RestApi \<Rightarrow> RestApi" where
  "configureCloudWatchRole env apiResource this =
     (let role =
            \<lparr>role_id = ''CloudWatchRole'',
             assumedBy = ''apigateway.amazonaws.com'',
             role_managedPolicyArns =
               [Arn_fromComponents env
                  \<lparr>service = ''iam'', region = Some '''', account = Some ''aws'',
                   resource = Lit ''policy'', sep = Some ''/'',
                   resourceName = Some ''service-role/AmazonAPIGatewayPushToCloudWatchLogs''\<rparr>]\<rparr>;
          resource =
            \<lparr>account_id = ''Account'',
             cloudWatchRoleArn = Attr (node_path this @ [role_id role]) ''roleArn'',
             dependencies = [cfn_id apiResource]\<rparr>
      in this\<lparr>children := children this @ [Role_child role, AccountResource_child resource]\<rparr>)"

text \<open>
  The constructor: \<open>parent\<close> is the path of the parent construct, \<open>ident\<close> the
  identifier of the new one, \<open>props_arg\<close> the optional configuration bundle.
\<close>

definition new_RestApi ::
  "env \<Rightarrow> string list \<Rightarrow> string \<Rightarrow> RestApiProps option \<Rightarrow> error + RestApi" where
  "new_RestApi env parent ident props_arg =
     (let props = with_default no_props props_arg;
          resource =
            \<lparr>cfn_id = ''Resource'',
             cfn_restApiName = or_else (restApiName props) ident,
             cfn_description = description props,
             cfn_policy = policy props,
             cfn_failOnWarnings = failOnWarnings props,
             cfn_minimumCompressionSize = minimumCompressionSize props,
             cfn_binaryMediaTypes = binaryMediaTypes props,
             cfn_endpointConfiguration =
               (case endpointTypes props of None \<Rightarrow> None | Some ts \<Rightarrow> Some \<lparr>types = ts\<rparr>),
             cfn_apiKeySourceType = apiKeySourceType props,
             cfn_cloneFrom =
               (case cloneFrom props of None \<Rightarrow> None | Some r \<Rightarrow> Some (ref_restApiId r)),
             cfn_parameters = parameters props\<rparr>;
          this =
            \<lparr>node_path = parent @ [ident],
             restApiId = Attr (parent @ [ident, cfn_id resource]) ''ref'',
             resourceId = Attr (parent @ [ident, cfn_id resource]) ''restApiRootResourceId'',
             resourcePath = ''/'',
             this_defaultIntegration = defaultIntegration props,
             latestDeployment = None,
             deploymentStage = None,
             methods = [],
             children = [RestApiResource_child resource]\<rparr>
      in case configureDeployment env props this of
           Inl e \<Rightarrow> Inl e
         | Inr this1 \<Rightarrow>
             (let cloudWatchRole = (case cloudWatchRole props of None \<Rightarrow> True | Some b \<Rightarrow> b) in
              if cloudWatchRole then Inr (configureCloudWatchRole env resource this1)
              else Inr this1))"


section \<open>Group\<close>

subsection \<open>Configuration and collaborators\<close>

record GroupProps =
  groupName :: "string option"
  managedPolicyArns :: "string list option"
  path :: "string option"

definition no_group_props :: GroupProps where
  "no_group_props = \<lparr>groupName = None, managedPolicyArns = None, path = None\<rparr>"

datatype PolicyStatement = PolicyStatement string

datatype PolicyPrincipal = ArnPrincipal token

text \<open>
  Modelled from the spec: the class \<open>Policy\<close> of \<open>./policy\<close> is not in the source. An
  inline policy is a construct that holds its statements in the order they were added
  and the groups it has been told it is attached to (by their paths).
\<close>

record Policy =
  policy_path :: "string list"
  statements :: "PolicyStatement list"
  groups :: "string list list"

text \<open>
  Modelled from the spec: the class \<open>User\<close> of \<open>./user\<close> is not in the source. A user
  keeps its own membership bookkeeping: the groups it has joined (by their paths).
\<close>

record User =
  user_path :: "string list"
  memberOf :: "string list list"

subsection \<open>The object\<close>

text \<open>
  The fields of a \<open>Group\<close>, with the path of the construct and the identifiers of the
  children created under it, in creation order. The field \<open>groupName\<close> of the object is
  \<open>this_groupName\<close>. \<open>attachedPolicies\<close> holds the paths of the policies recorded by
  \<open>AttachedPolicies.attach\<close>.
\<close>

record Group =
  group_path :: "string list"
  this_groupName :: token
  groupArn :: token
  principal :: PolicyPrincipal
  managedPolicies :: "string list"
  attachedPolicies :: "string list list"
  defaultPolicy :: "Policy option"
  group_children :: "string list"

text \<open>
  The generated resource created by the constructor. \<open>managedPolicyArns\<close> is not a
  list but a deferred value: a function of the state the \<open>Group\<close> is in when the
  property is read.
\<close>

record GroupResource =
  cfn_group_id :: string
  cfn_groupName :: "string option"
  cfn_managedPolicyArns :: "Group \<Rightarrow> string list option"
  cfn_path :: "string option"

text \<open>
  Modelled from the spec: \<open>undefinedIfEmpty\<close> of \<open>./util\<close> is not in the source. The
  spec gives its result: an empty list collapses to unset (\<open>None\<close>) rather than an
  empty array. The constructor calls it with a function, not with a list, so its result is
  a deferred value: the function is called when the value is read, in the state \<open>s\<close>
  of that moment.
\<close>

definition undefinedIfEmpty :: "('s \<Rightarrow> 'a list) \<Rightarrow> 's \<Rightarrow> 'a list option" where
  "undefinedIfEmpty f s = (case f s of [] \<Rightarrow> None | x # xs \<Rightarrow> Some (x # xs))"

text \<open>Modelled from the spec: \<open>new Policy(parent, name)\<close>, a policy with no statement yet.\<close>

definition new_Policy :: "string list \<Rightarrow> string \<Rightarrow> Policy" where
  "new_Policy parent name = \<lparr>policy_path = parent @ [name], statements = [], groups = []\<rparr>"

text \<open>
  Modelled from the spec: \<open>Policy.attachToGroup\<close> informs the policy that the group is
  now one of its attachment targets.
\<close>

definition Policy_attachToGroup :: "Policy \<Rightarrow> Group \<Rightarrow> Policy" where
  "Policy_attachToGroup pol grp = pol\<lparr>groups := groups pol @ [group_path grp]\<rparr>"

text \<open>Modelled from the spec: \<open>Policy.addStatement\<close> appends the statement.\<close>

definition Policy_addStatement :: "Policy \<Rightarrow> PolicyStatement \<Rightarrow> Policy" where
  "Policy_addStatement pol statement = pol\<lparr>statements := statements pol @ [statement]\<rparr>"

text \<open>
  Modelled from the spec: \<open>User.addToGroup\<close>, the user's own join-group operation,
  records the group in the user's membership bookkeeping.
\<close>

definition User_addToGroup :: "User \<Rightarrow> Group \<Rightarrow> User" where
  "User_addToGroup user grp = user\<lparr>memberOf := memberOf user @ [group_path grp]\<rparr>"

subsection \<open>Constructor and methods\<close>

text \<open>
  The constructor returns the object and the generated resource it created as child
  \<open>Resource\<close>. The closure \<open>() => this.managedPolicies\<close> reads the field of the
  object at the time it is called.
\<close>

definition new_Group :: "string list \<Rightarrow> string \<Rightarrow> GroupProps option \<Rightarrow> Group \<times> GroupResource" where
  "new_Group parent name props_arg =
     (let props = with_default no_group_props props_arg;
          group =
            \<lparr>cfn_group_id = ''Resource'',
             cfn_groupName = groupName props,
             cfn_managedPolicyArns = undefinedIfEmpty (\<lambda>this. managedPolicies this),
             cfn_path = path props\<rparr>;
          this =
            \<lparr>group_path = parent @ [name],
             this_groupName = Attr (parent @ [name, cfn_group_id group]) ''groupName'',
             groupArn = Attr (parent @ [name, cfn_group_id group]) ''groupArn'',
             principal = ArnPrincipal (Attr (parent @ [name, cfn_group_id group]) ''groupArn''),
             managedPolicies = with_default [] (managedPolicyArns props),
             attachedPolicies = [],
             defaultPolicy = None,
             group_children = [cfn_group_id group]\<rparr>
      in (this, group))"

definition attachManagedPolicy :: "Group \<Rightarrow> string \<Rightarrow> Group" where
  "attachManagedPolicy this arn = this\<lparr>managedPolicies := managedPolicies this @ [arn]\<rparr>"

definition attachInlinePolicy :: "Group \<Rightarrow> Policy \<Rightarrow> Group \<times> Policy" where
  "attachInlinePolicy this pol =
     (let this1 = this\<lparr>attachedPolicies := attachedPolicies this @ [policy_path pol]\<rparr>
      in (this1, Policy_attachToGroup pol this1))"

definition addUser :: "Group \<Rightarrow> User \<Rightarrow> Group \<times> User" where
  "addUser this user = (this, User_addToGroup user this)"

definition addToPolicy :: "Group \<Rightarrow> PolicyStatement \<Rightarrow> Group" where
  "addToPolicy this statement =
     (let this1 =
            (if defaultPolicy this = None then
               (let created = this\<lparr>defaultPolicy := Some (new_Policy (group_path this) ''DefaultPolicy''),
                                   group_children := group_children this @ [''DefaultPolicy'']\<rparr>
                in created\<lparr>defaultPolicy :=
                     map_option (\<lambda>p. Policy_attachToGroup p created) (defaultPolicy created)\<rparr>)
             else this)
      in this1\<lparr>defaultPolicy :=
           map_option (\<lambda>p. Policy_addStatement p statement) (defaultPolicy this1)\<rparr>)"

section \<open>An instance of the collaborators\<close>

text \<open>
  A concrete \<open>cdk.Arn.fromComponents\<close> and a concrete \<open>Stage.urlForPath\<close> (one that
  rejects a path without a leading slash), on which the operations are evaluated at
  concrete inputs. The general statements below hold for every instance.
\<close>

definition demo_arn :: "ArnComponents \<Rightarrow> token" where
  "demo_arn c =
     Join [Lit ''arn:aws:'', Lit (service c), Lit '':'', Lit (with_default ''region'' (region c)),
           Lit '':'', Lit (with_default ''account'' (account c)), Lit '':'', resource c,
           Lit (with_default '''' (sep c)), Lit (with_default '''' (resourceName c))]"

definition demo_url :: "Stage \<Rightarrow> string \<Rightarrow> string + string" where
  \<open>demo_url st p =
     (if startsWith p ''/''
      then Inr (''https://api.example/'' @ or_else (stage_stageName st) ''prod'' @ p)
      else Inl ''Path must begin with "/"'')\<close>

definition demo_env :: env where
  "demo_env = \<lparr>Arn_fromComponents = demo_arn, Stage_urlForPath = demo_url\<rparr>"

definition demo_stage :: Stage where
  "demo_stage = \<lparr>stage_id = ''ManualStage'', stage_deployment = None,
     stage_stageName = Some ''beta''\<rparr>"


section \<open>RestApi: construction\<close>

text \<open>
  The constructor builds the object with no deployment, no stage and no method, whose only
  child is the generated resource, then runs \<open>configureDeployment\<close> and, when that
  returns, \<open>configureCloudWatchRole\<close> if enabled.
\<close>

lemma new_RestApi_unfold:
  "\<exists>this r. latestDeployment this = None \<and> deploymentStage this = None \<and> methods this = [] \<and>
     node_path this = parent @ [ident] \<and> children this = [RestApiResource_child r] \<and>
     cfn_minimumCompressionSize r = minimumCompressionSize (with_default no_props props_arg) \<and>
     new_RestApi env parent ident props_arg =
       (case configureDeployment env (with_default no_props props_arg) this of
          Inl e \<Rightarrow> Inl e
        | Inr this1 \<Rightarrow>
            if with_default True (cloudWatchRole (with_default no_props props_arg))
            then Inr (configureCloudWatchRole env r this1) else Inr this1)"
  unfolding new_RestApi_def Let_def with_default_def
  by (intro exI conjI; (rule refl)?; simp)

lemma configureCloudWatchRole_fields:
  "latestDeployment (configureCloudWatchRole env r this) = latestDeployment this"
  "deploymentStage (configureCloudWatchRole env r this) = deploymentStage this"
  "methods (configureCloudWatchRole env r this) = methods this"
  "restApiId (configureCloudWatchRole env r this) = restApiId this"
  by (simp_all add: configureCloudWatchRole_def Let_def)

lemma configureDeployment_enabled:
  assumes "deploy props \<noteq> Some False"
  shows "case configureDeployment env props this of
           Inr this' \<Rightarrow>
             (\<exists>d st u. latestDeployment this' = Some d \<and> deploymentStage this' = Some st \<and>
                stage_id st = ''DeploymentStage.'' @ deployStageName props \<and>
                Stage_urlForPath env st ''/'' = Inr u \<and> methods this' = methods this)
         | Inl e \<Rightarrow> (\<exists>st m. e = StageError m \<and> Stage_urlForPath env st ''/'' = Inl m)"
  using assms
  by (auto simp: configureDeployment_def urlForPath_def with_default_def Let_def
      split: option.splits sum.splits)

lemma configureDeployment_disabled:
  assumes "deploy props = Some False"
  shows "configureDeployment env props this =
           (if deployOptions props \<noteq> None
            then Inl (ConfigConflict ''Cannot set 'deployOptions' if 'deploy' is disabled'')
            else Inr this)"
  using assms by (simp add: configureDeployment_def)

lemma configureDeployment_methods:
  assumes "configureDeployment env props this = Inr this'"
  shows "methods this' = methods this"
  using assms
  by (auto simp: configureDeployment_def Let_def split: option.splits sum.splits if_splits)

lemma configureDeployment_children:
  assumes "configureDeployment env props this = Inr this'"
  shows "\<exists>rest. children this' = children this @ rest"
  using assms
  by (auto simp: configureDeployment_def Let_def split: option.splits sum.splits if_splits)

text \<open>
  \<open>configureDeployment\<close> throws in two cases only: the conflict of \<open>deployOptions\<close>
  with a disabled \<open>deploy\<close>, and \<open>Stage.urlForPath\<close> throwing on the stage just created
  when the endpoint output is published.
\<close>

lemma configureDeployment_isl:
  "isl (configureDeployment env props this) =
     (if deploy props = Some False then deployOptions props \<noteq> None
      else isl (Stage_urlForPath env
        \<lparr>stage_id = ''DeploymentStage.'' @ deployStageName props,
         stage_deployment = Some
           \<lparr>deployment_id = ''Deployment'',
            deployment_description = ''Automatically created by the RestApi construct'',
            deployment_api = node_path this,
            deployment_retainDeployments = retainDeployments props\<rparr>,
         stage_stageName =
           (case deployOptions props of None \<Rightarrow> None | Some opts \<Rightarrow> stageName opts)\<rparr> ''/''))"
  by (simp add: configureDeployment_def urlForPath_def with_default_def Let_def
      split: option.splits sum.splits)

lemma new_RestApi_isl:
  "isl (new_RestApi env parent ident props_arg) =
     (if deploy (with_default no_props props_arg) = Some False
      then deployOptions (with_default no_props props_arg) \<noteq> None
      else isl (Stage_urlForPath env
        \<lparr>stage_id = ''DeploymentStage.'' @ deployStageName (with_default no_props props_arg),
         stage_deployment = Some
           \<lparr>deployment_id = ''Deployment'',
            deployment_description = ''Automatically created by the RestApi construct'',
            deployment_api = parent @ [ident],
            deployment_retainDeployments = retainDeployments (with_default no_props props_arg)\<rparr>,
         stage_stageName =
           (case deployOptions (with_default no_props props_arg) of
              None \<Rightarrow> None | Some opts \<Rightarrow> stageName opts)\<rparr> ''/''))"
proof -
  obtain this r where path: "node_path this = parent @ [ident]" and new:
    "new_RestApi env parent ident props_arg =
       (case configureDeployment env (with_default no_props props_arg) this of
          Inl e \<Rightarrow> Inl e
        | Inr this1 \<Rightarrow>
            if with_default True (cloudWatchRole (with_default no_props props_arg))
            then Inr (configureCloudWatchRole env r this1) else Inr this1)"
    using new_RestApi_unfold by blast
  have "isl (new_RestApi env parent ident props_arg) =
          isl (configureDeployment env (with_default no_props props_arg) this)"
    unfolding new by (simp split: sum.splits)
  then show ?thesis
    unfolding configureDeployment_isl path .
qed

lemma new_RestApi_enabled:
  assumes "deploy (with_default no_props props_arg) \<noteq> Some False"
  shows "case new_RestApi env parent ident props_arg of
           Inr api \<Rightarrow>
             (\<exists>d st u. latestDeployment api = Some d \<and> deploymentStage api = Some st \<and>
                stage_id st =
                  ''DeploymentStage.'' @ deployStageName (with_default no_props props_arg) \<and>
                Stage_urlForPath env st ''/'' = Inr u)
         | Inl e \<Rightarrow> (\<exists>st m. e = StageError m \<and> Stage_urlForPath env st ''/'' = Inl m)"
proof -
  obtain this r where new:
    "new_RestApi env parent ident props_arg =
       (case configureDeployment env (with_default no_props props_arg) this of
          Inl e \<Rightarrow> Inl e
        | Inr this1 \<Rightarrow>
            if with_default True (cloudWatchRole (with_default no_props props_arg))
            then Inr (configureCloudWatchRole env r this1) else Inr this1)"
    using new_RestApi_unfold by blast
  from configureDeployment_enabled [OF assms, of env this] show ?thesis
    unfolding new
    by (auto simp: configureCloudWatchRole_fields split: sum.splits)
qed

lemma new_RestApi_disabled:
  assumes "deploy p = Some False" and "deployOptions p = None"
  shows "\<exists>api. new_RestApi env parent ident (Some p) = Inr api \<and>
           latestDeployment api = None \<and> deploymentStage api = None"
proof -
  obtain this r where init: "latestDeployment this = None" "deploymentStage this = None"
    and new:
    "new_RestApi env parent ident (Some p) =
       (case configureDeployment env (with_default no_props (Some p)) this of
          Inl e \<Rightarrow> Inl e
        | Inr this1 \<Rightarrow>
            if with_default True (cloudWatchRole (with_default no_props (Some p)))
            then Inr (configureCloudWatchRole env r this1) else Inr this1)"
    using new_RestApi_unfold by blast
  from assms init show ?thesis
    unfolding new
    by (simp add: configureDeployment_disabled with_default_def configureCloudWatchRole_fields)
qed

lemma new_RestApi_conflict:
  assumes "deploy p = Some False" and "deployOptions p = Some opts"
  shows "new_RestApi env parent ident (Some p) =
           Inl (ConfigConflict ''Cannot set 'deployOptions' if 'deploy' is disabled'')"
proof -
  obtain this r where new:
    "new_RestApi env parent ident (Some p) =
       (case configureDeployment env (with_default no_props (Some p)) this of
          Inl e \<Rightarrow> Inl e
        | Inr this1 \<Rightarrow>
            if with_default True (cloudWatchRole (with_default no_props (Some p)))
            then Inr (configureCloudWatchRole env r this1) else Inr this1)"
    using new_RestApi_unfold by blast
  from assms show ?thesis
    unfolding new by (simp add: configureDeployment_disabled with_default_def)
qed

lemma new_RestApi_methods:
  assumes "new_RestApi env parent ident props_arg = Inr api"
  shows "methods api = []"
proof -
  obtain this r where init: "methods this = []" and new:
    "new_RestApi env parent ident props_arg =
       (case configureDeployment env (with_default no_props props_arg) this of
          Inl e \<Rightarrow> Inl e
        | Inr this1 \<Rightarrow>
            if with_default True (cloudWatchRole (with_default no_props props_arg))
            then Inr (configureCloudWatchRole env r this1) else Inr this1)"
    using new_RestApi_unfold by blast
  from assms init configureDeployment_methods [of env "with_default no_props props_arg" this]
  show ?thesis
    unfolding new
    by (auto simp: configureCloudWatchRole_fields split: sum.splits if_splits)
qed

lemma new_RestApi_resource:
  assumes "new_RestApi env parent ident props_arg = Inr api"
  shows "\<exists>r rest. children api = RestApiResource_child r # rest \<and>
           cfn_minimumCompressionSize r = minimumCompressionSize (with_default no_props props_arg)"
proof -
  obtain this r where init: "children this = [RestApiResource_child r]"
      "cfn_minimumCompressionSize r = minimumCompressionSize (with_default no_props props_arg)"
    and new:
    "new_RestApi env parent ident props_arg =
       (case configureDeployment env (with_default no_props props_arg) this of
          Inl e \<Rightarrow> Inl e
        | Inr this1 \<Rightarrow>
            if with_default True (cloudWatchRole (with_default no_props props_arg))
            then Inr (configureCloudWatchRole env r this1) else Inr this1)"
    using new_RestApi_unfold by blast
  from assms new init configureDeployment_children [of env "with_default no_props props_arg" this]
  show ?thesis
    by (auto simp: configureCloudWatchRole_def Let_def split: sum.splits if_splits)
qed

text \<open>
  The stage \<open>configureDeployment\<close> creates: it points at the new deployment, carries
  \<open>deployOptions.stageName\<close> as given, and both are children of the \<open>RestApi\<close>.
\<close>

lemma configureDeployment_stage:
  assumes "deploy props \<noteq> Some False"
    and "configureDeployment env props this = Inr this'"
  shows "\<exists>d st. latestDeployment this' = Some d \<and> deploymentStage this' = Some st \<and>
           stage_deployment st = Some d \<and>
           stage_stageName st =
             (case deployOptions props of None \<Rightarrow> None | Some opts \<Rightarrow> stageName opts) \<and>
           stage_id st = ''DeploymentStage.'' @ deployStageName props \<and>
           Deployment_child d \<in> set (children this') \<and> Stage_child st \<in> set (children this')"
  using assms
  by (auto simp: configureDeployment_def Let_def split: option.splits sum.splits)

lemma configureCloudWatchRole_children:
  "set (children this) \<subseteq> set (children (configureCloudWatchRole env r this))"
  by (auto simp: configureCloudWatchRole_def Let_def)

lemma new_RestApi_stage:
  assumes "deploy (with_default no_props props_arg) \<noteq> Some False"
    and "new_RestApi env parent ident props_arg = Inr api"
  shows "\<exists>d st. latestDeployment api = Some d \<and> deploymentStage api = Some st \<and>
           stage_deployment st = Some d \<and>
           stage_stageName st =
             (case deployOptions (with_default no_props props_arg) of
                None \<Rightarrow> None | Some opts \<Rightarrow> stageName opts) \<and>
           stage_id st = ''DeploymentStage.'' @ deployStageName (with_default no_props props_arg) \<and>
           Deployment_child d \<in> set (children api) \<and> Stage_child st \<in> set (children api)"
proof -
  obtain this r where new:
    "new_RestApi env parent ident props_arg =
       (case configureDeployment env (with_default no_props props_arg) this of
          Inl e \<Rightarrow> Inl e
        | Inr this1 \<Rightarrow>
            if with_default True (cloudWatchRole (with_default no_props props_arg))
            then Inr (configureCloudWatchRole env r this1) else Inr this1)"
    using new_RestApi_unfold by blast
  from assms(2) obtain this1 where cd:
      "configureDeployment env (with_default no_props props_arg) this = Inr this1"
    and api: "api = configureCloudWatchRole env r this1 \<or> api = this1"
    unfolding new by (auto split: sum.splits if_splits)
  from configureDeployment_stage [OF assms(1) cd] obtain d st where st:
    "latestDeployment this1 = Some d" "deploymentStage this1 = Some st"
    "stage_deployment st = Some d"
    "stage_stageName st =
       (case deployOptions (with_default no_props props_arg) of
          None \<Rightarrow> None | Some opts \<Rightarrow> stageName opts)"
    "stage_id st = ''DeploymentStage.'' @ deployStageName (with_default no_props props_arg)"
    "Deployment_child d \<in> set (children this1)" "Stage_child st \<in> set (children this1)"
    by blast
  from api show ?thesis
  proof
    assume "api = this1"
    with st show ?thesis by blast
  next
    assume a: "api = configureCloudWatchRole env r this1"
    from st(6,7) configureCloudWatchRole_children [of this1 env r]
    have "Deployment_child d \<in> set (children api)" "Stage_child st \<in> set (children api)"
      unfolding a by blast+
    with st(1-5) show ?thesis
      unfolding a by (simp add: configureCloudWatchRole_fields)
  qed
qed

text \<open>On the instance, the constructor returns for the default configuration.\<close>

lemma demo_api_returns: "\<not> isl (new_RestApi demo_env [''Stack''] ''Api'' None)"
  by (simp add: new_RestApi_isl with_default_def no_props_def demo_env_def demo_url_def
      startsWith_def)

lemma methods_attachMethods: "methods (foldl attachMethod api ms) = methods api @ ms"
  by (induction ms arbitrary: api) (simp_all add: attachMethod_def)

lemma deployStageName_cases:
  "deployStageName (q\<lparr>deployOptions := None\<rparr>) = ''prod''"
  "deployStageName (q\<lparr>deployOptions := Some \<lparr>stageName = None\<rparr>\<rparr>) = ''prod''"
  "deployStageName (q\<lparr>deployOptions := Some \<lparr>stageName = Some []\<rparr>\<rparr>) = ''prod''"
  "deployStageName (q\<lparr>deployOptions := Some \<lparr>stageName = Some (c # cs)\<rparr>\<rparr>) = c # cs"
  by (simp_all add: deployStageName_def or_else_def)


section \<open>RestApi: the claims\<close>

text \<open>
  Claim C1. For every construction of a \<open>RestApi\<close> where the \<open>deploy\<close> option is
  omitted or true, after the constructor returns the object has both
  \<open>latestDeployment\<close> and \<open>deploymentStage\<close> set, and \<open>url\<close> (equivalently
  \<open>urlForPath\<close> with its default path \<open>/\<close>) does not fail. The constructor itself
  has called \<open>urlForPath()\<close> on the stage it created, so it returns unless
  \<open>Stage.urlForPath\<close> throws there, and that is its only failure.
\<close>

theorem deploy_enabled_deployment_stage_url:
  assumes "deploy (with_default no_props props_arg) \<noteq> Some False"
  shows "case new_RestApi env parent ident props_arg of
           Inr api \<Rightarrow>
             latestDeployment api \<noteq> None \<and> deploymentStage api \<noteq> None \<and>
             (\<exists>u. url env api = Inr u \<and> urlForPath env api None = Inr u \<and>
                  urlForPath env api (Some ''/'') = Inr u)
         | Inl e \<Rightarrow> (\<exists>st m. e = StageError m \<and> Stage_urlForPath env st ''/'' = Inl m)"
  using new_RestApi_enabled [OF assms, of env parent ident]
  by (auto simp: url_def urlForPath_def with_default_def split: sum.splits)

theorem deploy_enabled_deployment_stage_url_witness:
  "deploy (with_default no_props None) \<noteq> Some False
   \<and> \<not> isl (new_RestApi demo_env [''Stack''] ''Api'' None)
   \<and> latestDeployment (projr (new_RestApi demo_env [''Stack''] ''Api'' None)) \<noteq> None
   \<and> deploymentStage (projr (new_RestApi demo_env [''Stack''] ''Api'' None)) \<noteq> None
   \<and> \<not> isl (url demo_env (projr (new_RestApi demo_env [''Stack''] ''Api'' None)))"
proof -
  have h: "deploy (with_default no_props None) \<noteq> Some False"
    by (simp add: with_default_def no_props_def)
  from demo_api_returns obtain api where api: "new_RestApi demo_env [''Stack''] ''Api'' None = Inr api"
    by (cases "new_RestApi demo_env [''Stack''] ''Api'' None") simp_all
  from deploy_enabled_deployment_stage_url [OF h, of demo_env "[''Stack'']" "''Api''"] h
  show ?thesis
    unfolding api by auto
qed

text \<open>
  Claim C2. The claim is that construction fails with the configuration-conflict error
  when \<open>deploy\<close> is false and \<open>deployOptions\<close> is supplied, and that \<open>url\<close> and
  \<open>urlForPath\<close> fail with the state error exactly when \<open>deploymentStage\<close> is not
  set and return normally otherwise. With a stage set, \<open>urlForPath\<close> passes the path on
  to the stage's \<open>urlForPath\<close>, which can throw: on a \<open>RestApi\<close> built with the default
  configuration the stage is set, yet \<open>urlForPath('pets')\<close> fails, with an error that
  is not the state error, when the stage rejects a path without a leading slash.
\<close>

theorem urlForPath_with_stage_can_fail:
  \<open>\<not> isl (new_RestApi demo_env [''Stack''] ''Api'' None)
   \<and> deploymentStage (projr (new_RestApi demo_env [''Stack''] ''Api'' None)) \<noteq> None
   \<and> urlForPath demo_env (projr (new_RestApi demo_env [''Stack''] ''Api'' None)) (Some ''pets'') =
       Inl (StageError ''Path must begin with "/"'')\<close>
proof -
  have h: "deploy (with_default no_props None) \<noteq> Some False"
    by (simp add: with_default_def no_props_def)
  from demo_api_returns obtain api where api: "new_RestApi demo_env [''Stack''] ''Api'' None = Inr api"
    by (cases "new_RestApi demo_env [''Stack''] ''Api'' None") simp_all
  from new_RestApi_stage [OF h api] obtain st where st: "deploymentStage api = Some st"
    by blast
  have \<open>urlForPath demo_env api (Some ''pets'') = Inl (StageError ''Path must begin with "/"'')\<close>
    by (simp add: urlForPath_def st with_default_def demo_env_def demo_url_def startsWith_def)
  with st demo_api_returns show ?thesis
    unfolding api by simp
qed

text \<open>
  Claim C2, amended. For every configuration bundle where \<open>deploy\<close> is false and
  \<open>deployOptions\<close> is supplied, construction fails with the configuration-conflict
  error. \<open>url\<close> and \<open>urlForPath\<close> fail with the state error exactly when
  \<open>deploymentStage\<close> is not set; when it is set, \<open>RestApi\<close> raises nothing of its own
  and the result is that of the stage's \<open>urlForPath\<close> on the path (default \<open>/\<close>): the
  URL, or the stage's own failure. A \<open>RestApi\<close> built with \<open>deploy\<close> false has no stage
  until one is assigned; one built with \<open>deploy\<close> enabled has a stage on which \<open>url\<close>
  returns.
\<close>

theorem deploy_conflict_and_url_state_error:
  \<open>(deploy p = Some False \<and> deployOptions p = Some opts \<longrightarrow>
      new_RestApi env parent ident (Some p) =
        Inl (ConfigConflict ''Cannot set 'deployOptions' if 'deploy' is disabled''))
   \<and> ((\<exists>m. urlForPath env api path_arg = Inl (StateError m)) = (deploymentStage api = None))
   \<and> ((\<exists>m. url env api = Inl (StateError m)) = (deploymentStage api = None))
   \<and> url env api = urlForPath env api None
   \<and> (deploymentStage a_unset = None \<longrightarrow>
      urlForPath env a_unset path_arg =
        Inl (StateError ''Cannot determine deployment stage for API from "deploymentStage". Use "deploy" or explicitly set "deploymentStage"''))
   \<and> (deploymentStage a_set = Some st \<longrightarrow>
      urlForPath env a_set path_arg =
        (case Stage_urlForPath env st (with_default ''/'' path_arg) of
           Inl m \<Rightarrow> Inl (StageError m)
         | Inr u \<Rightarrow> Inr u))
   \<and> (deploy q = Some False \<and> deployOptions q = None \<longrightarrow>
      (\<exists>a. new_RestApi env parent ident (Some q) = Inr a \<and> deploymentStage a = None))
   \<and> (deploy (with_default no_props r) \<noteq> Some False \<and>
      new_RestApi env parent ident r = Inr a_auto \<longrightarrow>
      deploymentStage a_auto \<noteq> None \<and> (\<exists>u. url env a_auto = Inr u))\<close>
proof -
  have conflict: \<open>deploy p = Some False \<and> deployOptions p = Some opts \<longrightarrow>
      new_RestApi env parent ident (Some p) =
        Inl (ConfigConflict ''Cannot set 'deployOptions' if 'deploy' is disabled'')\<close>
    using new_RestApi_conflict by blast
  have state: "(\<exists>m. urlForPath env api a = Inl (StateError m)) = (deploymentStage api = None)" for a
    by (simp add: urlForPath_def Let_def split: option.splits sum.splits)
  have unset: \<open>deploymentStage a_unset = None \<longrightarrow>
      urlForPath env a_unset path_arg =
        Inl (StateError ''Cannot determine deployment stage for API from "deploymentStage". Use "deploy" or explicitly set "deploymentStage"'')\<close>
    by (simp add: urlForPath_def)
  have assigned: "deploymentStage a_set = Some st \<longrightarrow>
      urlForPath env a_set path_arg =
        (case Stage_urlForPath env st (with_default ''/'' path_arg) of
           Inl m \<Rightarrow> Inl (StageError m)
         | Inr u \<Rightarrow> Inr u)"
    by (simp add: urlForPath_def)
  have disabled: "deploy q = Some False \<and> deployOptions q = None \<longrightarrow>
      (\<exists>a. new_RestApi env parent ident (Some q) = Inr a \<and> deploymentStage a = None)"
    using new_RestApi_disabled [of q env parent ident] by blast
  have enabled: "deploy (with_default no_props r) \<noteq> Some False \<and>
      new_RestApi env parent ident r = Inr a_auto \<longrightarrow>
      deploymentStage a_auto \<noteq> None \<and> (\<exists>u. url env a_auto = Inr u)"
    using new_RestApi_enabled [of r env parent ident]
    by (auto simp: url_def urlForPath_def with_default_def)
  from conflict state [of path_arg] state [of None] unset assigned disabled enabled
  show ?thesis
    by (simp only: url_def simp_thms)
qed

theorem deploy_conflict_and_url_state_error_witness:
  \<open>deploy (no_props\<lparr>deploy := Some False, deployOptions := Some \<lparr>stageName = Some ''beta''\<rparr>\<rparr>)
     = Some False
   \<and> deployOptions (no_props\<lparr>deploy := Some False, deployOptions := Some \<lparr>stageName = Some ''beta''\<rparr>\<rparr>)
     = Some \<lparr>stageName = Some ''beta''\<rparr>
   \<and> new_RestApi demo_env [''Stack''] ''Api''
       (Some (no_props\<lparr>deploy := Some False, deployOptions := Some \<lparr>stageName = Some ''beta''\<rparr>\<rparr>))
     = Inl (ConfigConflict ''Cannot set 'deployOptions' if 'deploy' is disabled'')
   \<and> deploy (no_props\<lparr>deploy := Some False\<rparr>) = Some False
   \<and> deployOptions (no_props\<lparr>deploy := Some False\<rparr>) = None
   \<and> \<not> isl (new_RestApi demo_env [''Stack''] ''Api'' (Some (no_props\<lparr>deploy := Some False\<rparr>)))
   \<and> deploymentStage
       (projr (new_RestApi demo_env [''Stack''] ''Api'' (Some (no_props\<lparr>deploy := Some False\<rparr>))))
     = None
   \<and> urlForPath demo_env
       (projr (new_RestApi demo_env [''Stack''] ''Api'' (Some (no_props\<lparr>deploy := Some False\<rparr>))))
       None
     = Inl (StateError ''Cannot determine deployment stage for API from "deploymentStage". Use "deploy" or explicitly set "deploymentStage"'')
   \<and> deploymentStage
       ((projr (new_RestApi demo_env [''Stack''] ''Api'' (Some (no_props\<lparr>deploy := Some False\<rparr>))))
          \<lparr>deploymentStage := Some demo_stage\<rparr>)
     = Some demo_stage
   \<and> urlForPath demo_env
       ((projr (new_RestApi demo_env [''Stack''] ''Api'' (Some (no_props\<lparr>deploy := Some False\<rparr>))))
          \<lparr>deploymentStage := Some demo_stage\<rparr>)
       (Some ''/pets'')
     = Inr ''https://api.example/beta/pets''
   \<and> deploy (with_default no_props None) \<noteq> Some False
   \<and> \<not> isl (new_RestApi demo_env [''Stack''] ''Api'' None)
   \<and> \<not> isl (url demo_env (projr (new_RestApi demo_env [''Stack''] ''Api'' None)))\<close>
proof -
  define q where "q = no_props\<lparr>deploy := Some False\<rparr>"
  define p where "p = q\<lparr>deployOptions := Some \<lparr>stageName = Some ''beta''\<rparr>\<rparr>"
  have hp: "deploy p = Some False" "deployOptions p = Some \<lparr>stageName = Some ''beta''\<rparr>"
    by (simp_all add: p_def q_def)
  have hq: "deploy q = Some False" "deployOptions q = None"
    by (simp_all add: q_def no_props_def)
  have hn: "deploy (with_default no_props None) \<noteq> Some False"
    by (simp add: with_default_def no_props_def)
  from demo_api_returns obtain a3 where a3: "new_RestApi demo_env [''Stack''] ''Api'' None = Inr a3"
    by (cases "new_RestApi demo_env [''Stack''] ''Api'' None") simp_all
  note inst = deploy_conflict_and_url_state_error
    [where p = p and opts = "\<lparr>stageName = Some ''beta''\<rparr>" and q = q and env = demo_env
       and parent = "[''Stack'']" and ident = "''Api''" and r = None and a_auto = a3]
  from inst hq obtain a where a: "new_RestApi demo_env [''Stack''] ''Api'' (Some q) = Inr a"
    and stage: "deploymentStage a = None"
    by blast
  note inst' = inst [where a_unset = a and a_set = "a\<lparr>deploymentStage := Some demo_stage\<rparr>"
      and st = demo_stage]
  have c1: \<open>new_RestApi demo_env [''Stack''] ''Api'' (Some p) =
      Inl (ConfigConflict ''Cannot set 'deployOptions' if 'deploy' is disabled'')\<close>
    using inst hp by blast
  have c2: \<open>urlForPath demo_env a None =
      Inl (StateError ''Cannot determine deployment stage for API from "deploymentStage". Use "deploy" or explicitly set "deploymentStage"'')\<close>
    using inst' [where path_arg = None] stage by blast
  have c3: "urlForPath demo_env (a\<lparr>deploymentStage := Some demo_stage\<rparr>) (Some ''/pets'') =
      Inr ''https://api.example/beta/pets''"
    using inst' [where path_arg = "Some ''/pets''"]
    by (simp add: with_default_def demo_env_def demo_url_def demo_stage_def startsWith_def
        or_else_def)
  have "\<exists>u. url demo_env a3 = Inr u"
    using inst hn a3 by blast
  then have c4: "\<not> isl (url demo_env a3)"
    by auto
  from hp hq hn c1 c2 c3 c4 stage show ?thesis
    unfolding p_def [symmetric] q_def [symmetric] a a3 by simp
qed

text \<open>
  Claim C3. \<open>executeApiArn()\<close> called with all defaults returns the same ARN as
  \<open>executeApiArn('*', '/*', '*')\<close>, the ARN of the resource name \<open>*/*/*\<close>; and for
  every non-empty path that does not start with \<open>/\<close> it fails with the validation
  error, whatever the other arguments are.
\<close>

theorem executeApiArn_defaults_and_path_check:
  \<open>executeApiArn env api None None None =
     executeApiArn env api (Some ''*'') (Some ''/*'') (Some ''*'')
   \<and> executeApiArn env api None None None =
       Inr (Arn_fromComponents env
         \<lparr>service = ''execute-api'', region = None, account = None,
          resource = restApiId api, sep = Some ''/'', resourceName = Some ''*/*/*''\<rparr>)
   \<and> (c \<noteq> CHR ''/'' \<longrightarrow>
        executeApiArn env api method_arg (Some (c # rest)) stage_arg =
          Inl (ValidationError
            (''"path" must begin with a "/": '' @ [CHR 0x27] @ (c # rest) @ [CHR 0x27])))\<close>
  by (simp add: executeApiArn_def with_default_def startsWith_def)

theorem executeApiArn_defaults_and_path_check_witness:
  \<open>CHR ''p'' \<noteq> CHR ''/''
   \<and> executeApiArn demo_env (projr (new_RestApi demo_env [''Stack''] ''Api'' None))
       (Some ''GET'') (Some ''pets'') None =
     Inl (ValidationError (''"path" must begin with a "/": '' @ [CHR 0x27] @ ''pets'' @ [CHR 0x27]))\<close>
  using executeApiArn_defaults_and_path_check
    [of demo_env "projr (new_RestApi demo_env [''Stack''] ''Api'' None)" "CHR ''p''"
      "Some ''GET''" "''ets''" None]
  by simp

text \<open>
  Claim C4. \<open>validate()\<close> returns a list of exactly one diagnostic when no method was ever
  registered through \<open>_attachMethod\<close>, and the empty list once at least one method has
  been registered; it returns a list in every case and raises nothing.
\<close>

theorem validate_diagnostic_iff_no_methods:
  assumes "new_RestApi env parent ident props_arg = Inr api"
  shows \<open>validate api = [''The REST API doesn't contain any methods'']
    \<and> length (validate api) = 1
    \<and> validate (foldl attachMethod api (m # ms)) = []
    \<and> validate (foldl attachMethod api ms) =
         (if ms = [] then [''The REST API doesn't contain any methods''] else [])
    \<and> validate (attachMethod a m) = []
    \<and> validate a = (if methods a = [] then [''The REST API doesn't contain any methods''] else [])\<close>
  using new_RestApi_methods [OF assms]
  by (simp add: validate_def methods_attachMethods attachMethod_def del: foldl_Cons)

theorem validate_diagnostic_iff_no_methods_witness:
  \<open>\<not> isl (new_RestApi demo_env [''Stack''] ''Api'' None)
   \<and> validate (projr (new_RestApi demo_env [''Stack''] ''Api'' None)) =
       [''The REST API doesn't contain any methods'']
   \<and> validate (foldl attachMethod (projr (new_RestApi demo_env [''Stack''] ''Api'' None))
        [\<lparr>httpMethod = ''GET'', integration = None\<rparr>,
         \<lparr>httpMethod = ''POST'', integration = None\<rparr>]) = []\<close>
proof -
  from demo_api_returns obtain api where api: "new_RestApi demo_env [''Stack''] ''Api'' None = Inr api"
    by (cases "new_RestApi demo_env [''Stack''] ''Api'' None") simp_all
  from validate_diagnostic_iff_no_methods [OF api,
      where m = "\<lparr>httpMethod = ''GET'', integration = None\<rparr>"
        and ms = "[\<lparr>httpMethod = ''POST'', integration = None\<rparr>]" and a = api]
  show ?thesis
    unfolding api by simp
qed

text \<open>
  Claim C7. The claim is that a \<open>minimumCompressionSize\<close> outside the integer range
  0 to 10485760 makes construction fail. The constructor makes no such check: the values
  \<open>-1\<close> and \<open>10485761\<close> are accepted.
\<close>

theorem minimumCompressionSize_out_of_range_accepted:
  "(- 1 :: int) < 0 \<and> (10485760 :: int) < 10485761
   \<and> \<not> isl (new_RestApi demo_env [''Stack''] ''Api''
            (Some (no_props\<lparr>minimumCompressionSize := Some (- 1)\<rparr>)))
   \<and> \<not> isl (new_RestApi demo_env [''Stack''] ''Api''
            (Some (no_props\<lparr>minimumCompressionSize := Some 10485761\<rparr>)))"
  by (simp add: new_RestApi_isl with_default_def no_props_def demo_env_def demo_url_def
      startsWith_def)

text \<open>
  Claim C7, amended. The constructor does not validate \<open>minimumCompressionSize\<close>:
  whether construction fails is the same for every value of the option, inside the range,
  outside it or omitted, and when construction returns the value has been passed unchanged
  to the generated resource.
\<close>

theorem minimumCompressionSize_not_checked:
  "isl (new_RestApi env parent ident (Some (p\<lparr>minimumCompressionSize := v\<rparr>))) =
     isl (new_RestApi env parent ident (Some p))
   \<and> (new_RestApi env parent ident (Some (p\<lparr>minimumCompressionSize := v\<rparr>)) = Inr api \<longrightarrow>
        (\<exists>r rest. children api = RestApiResource_child r # rest \<and>
           cfn_minimumCompressionSize r = v))"
proof -
  have a: "isl (new_RestApi env parent ident (Some (p\<lparr>minimumCompressionSize := v\<rparr>))) =
     isl (new_RestApi env parent ident (Some p))"
    by (simp add: new_RestApi_isl with_default_def deployStageName_def)
  have b: "new_RestApi env parent ident (Some (p\<lparr>minimumCompressionSize := v\<rparr>)) = Inr api \<longrightarrow>
        (\<exists>r rest. children api = RestApiResource_child r # rest \<and>
           cfn_minimumCompressionSize r = v)"
    using new_RestApi_resource [of env parent ident "Some (p\<lparr>minimumCompressionSize := v\<rparr>)" api]
    by (simp add: with_default_def)
  from a b show ?thesis by blast
qed

theorem minimumCompressionSize_not_checked_witness:
  "\<not> isl (new_RestApi demo_env [''Stack''] ''Api''
            (Some (no_props\<lparr>minimumCompressionSize := Some 10485761\<rparr>)))
   \<and> (\<exists>r rest.
        children (projr (new_RestApi demo_env [''Stack''] ''Api''
            (Some (no_props\<lparr>minimumCompressionSize := Some 10485761\<rparr>)))) =
          RestApiResource_child r # rest \<and>
        cfn_minimumCompressionSize r = Some 10485761)"
proof -
  have ok: "\<not> isl (new_RestApi demo_env [''Stack''] ''Api''
            (Some (no_props\<lparr>minimumCompressionSize := Some 10485761\<rparr>)))"
    by (simp add: new_RestApi_isl with_default_def no_props_def demo_env_def demo_url_def
        startsWith_def)
  then obtain api where api: "new_RestApi demo_env [''Stack''] ''Api''
            (Some (no_props\<lparr>minimumCompressionSize := Some 10485761\<rparr>)) = Inr api"
    by (cases "new_RestApi demo_env [''Stack''] ''Api''
            (Some (no_props\<lparr>minimumCompressionSize := Some 10485761\<rparr>))") simp_all
  from minimumCompressionSize_not_checked
    [where env = demo_env and parent = "[''Stack'']" and ident = "''Api''" and p = no_props
      and v = "Some 10485761" and api = api] api
  show ?thesis
    by simp
qed

text \<open>
  Claim C8. The claim is that, when \<open>deploy\<close> is enabled, the stage created by the
  constructor is named by \<open>deployOptions.stageName\<close> with default \<open>prod\<close>, that this
  name is embedded in the stage's construct identifier (\<open>DeploymentStage.\<close> followed by
  the stage name), and that two configurations differing only in stage name get different
  stage identifiers. The empty stage name fails it: the stage receives the empty name while
  its identifier embeds \<open>prod\<close>, the same identifier as for the stage name \<open>prod\<close>.
\<close>

theorem empty_stage_name_shares_identifier:
  "Some '''' \<noteq> Some ''prod''
   \<and> \<not> isl (new_RestApi demo_env [''Stack''] ''Api''
        (Some (no_props\<lparr>deployOptions := Some \<lparr>stageName = Some ''''\<rparr>\<rparr>)))
   \<and> \<not> isl (new_RestApi demo_env [''Stack''] ''Api''
        (Some (no_props\<lparr>deployOptions := Some \<lparr>stageName = Some ''prod''\<rparr>\<rparr>)))
   \<and> map_option stage_stageName (deploymentStage (projr (new_RestApi demo_env [''Stack''] ''Api''
        (Some (no_props\<lparr>deployOptions := Some \<lparr>stageName = Some ''''\<rparr>\<rparr>))))) =
       Some (Some '''')
   \<and> map_option stage_id (deploymentStage (projr (new_RestApi demo_env [''Stack''] ''Api''
        (Some (no_props\<lparr>deployOptions := Some \<lparr>stageName = Some ''''\<rparr>\<rparr>))))) =
       Some ''DeploymentStage.prod''
   \<and> map_option stage_id (deploymentStage (projr (new_RestApi demo_env [''Stack''] ''Api''
        (Some (no_props\<lparr>deployOptions := Some \<lparr>stageName = Some ''prod''\<rparr>\<rparr>))))) =
       Some ''DeploymentStage.prod''"
proof -
  define e where "e = Some (no_props\<lparr>deployOptions := Some \<lparr>stageName = Some ''''\<rparr>\<rparr>)"
  define p where "p = Some (no_props\<lparr>deployOptions := Some \<lparr>stageName = Some ''prod''\<rparr>\<rparr>)"
  have he: "deploy (with_default no_props e) \<noteq> Some False"
    and hp: "deploy (with_default no_props p) \<noteq> Some False"
    by (simp_all add: e_def p_def with_default_def no_props_def)
  have re: "\<not> isl (new_RestApi demo_env [''Stack''] ''Api'' e)"
    and rp: "\<not> isl (new_RestApi demo_env [''Stack''] ''Api'' p)"
    by (simp_all add: e_def p_def new_RestApi_isl with_default_def no_props_def demo_env_def
        demo_url_def startsWith_def)
  from re obtain a where a: "new_RestApi demo_env [''Stack''] ''Api'' e = Inr a"
    by (cases "new_RestApi demo_env [''Stack''] ''Api'' e") simp_all
  from rp obtain b where b: "new_RestApi demo_env [''Stack''] ''Api'' p = Inr b"
    by (cases "new_RestApi demo_env [''Stack''] ''Api'' p") simp_all
  have ne: "deployStageName (with_default no_props e) = ''prod''"
    and np: "deployStageName (with_default no_props p) = ''prod''"
    by (simp_all add: e_def p_def with_default_def deployStageName_def or_else_def)
  from new_RestApi_stage [OF he a] ne
  have sa: "map_option stage_stageName (deploymentStage a) = Some (Some '''')"
    "map_option stage_id (deploymentStage a) = Some ''DeploymentStage.prod''"
    by (auto simp: e_def with_default_def)
  from new_RestApi_stage [OF hp b] np
  have sb: "map_option stage_id (deploymentStage b) = Some ''DeploymentStage.prod''"
    by auto
  from re rp sa sb show ?thesis
    unfolding e_def [symmetric] p_def [symmetric] a b by simp
qed

text \<open>
  Claim C8, amended. When \<open>deploy\<close> is enabled, the stage created by the constructor
  points at the new deployment and receives \<open>deployOptions.stageName\<close> as given (unset
  when omitted). Its construct identifier is \<open>DeploymentStage.\<close> followed by the stage
  name, where an omitted name and the empty string both count as \<open>prod\<close>. Two
  configurations whose stage names, so defaulted, differ get different stage identifiers;
  in particular two different non-empty stage names do.
\<close>

theorem stage_identifier_embeds_stage_name:
  assumes "deploy (with_default no_props props_arg) \<noteq> Some False"
    and "new_RestApi env parent ident props_arg = Inr api"
  shows "(\<exists>st. deploymentStage api = Some st \<and>
            stage_id st = ''DeploymentStage.'' @ deployStageName (with_default no_props props_arg))
    \<and> (\<exists>d st. latestDeployment api = Some d \<and> deploymentStage api = Some st \<and>
            stage_deployment st = Some d \<and>
            stage_stageName st =
              (case deployOptions (with_default no_props props_arg) of
                 None \<Rightarrow> None | Some opts \<Rightarrow> stageName opts) \<and>
            stage_id st = ''DeploymentStage.'' @ deployStageName (with_default no_props props_arg) \<and>
            Deployment_child d \<in> set (children api) \<and> Stage_child st \<in> set (children api))
    \<and> deployStageName no_props = ''prod''
    \<and> deployStageName (q\<lparr>deployOptions := None\<rparr>) = ''prod''
    \<and> deployStageName (q\<lparr>deployOptions := Some \<lparr>stageName = None\<rparr>\<rparr>) = ''prod''
    \<and> deployStageName (q\<lparr>deployOptions := Some \<lparr>stageName = Some (c # cs)\<rparr>\<rparr>) = c # cs
    \<and> deployStageName (q\<lparr>deployOptions := Some \<lparr>stageName = Some []\<rparr>\<rparr>) = ''prod''
    \<and> (deploy (with_default no_props props_arg') \<noteq> Some False \<and>
        new_RestApi env' parent' ident' props_arg' = Inr api' \<and>
        deployStageName (with_default no_props props_arg) \<noteq>
          deployStageName (with_default no_props props_arg') \<longrightarrow>
        map_option stage_id (deploymentStage api) \<noteq> map_option stage_id (deploymentStage api'))
    \<and> (n \<noteq> [] \<and> n' \<noteq> [] \<and> n \<noteq> n' \<longrightarrow>
        ''DeploymentStage.'' @ deployStageName (q\<lparr>deployOptions := Some \<lparr>stageName = Some n\<rparr>\<rparr>) \<noteq>
        ''DeploymentStage.'' @ deployStageName (q\<lparr>deployOptions := Some \<lparr>stageName = Some n'\<rparr>\<rparr>))"
proof -
  note full = new_RestApi_stage [OF assms]
  then have st: "\<exists>st. deploymentStage api = Some st \<and>
      stage_id st = ''DeploymentStage.'' @ deployStageName (with_default no_props props_arg)"
    by blast
  have two: "map_option stage_id (deploymentStage api) \<noteq> map_option stage_id (deploymentStage api')"
    if "deploy (with_default no_props props_arg') \<noteq> Some False"
      and "new_RestApi env' parent' ident' props_arg' = Inr api'"
      and "deployStageName (with_default no_props props_arg) \<noteq>
             deployStageName (with_default no_props props_arg')"
  proof -
    have "\<exists>st. deploymentStage api' = Some st \<and>
      stage_id st = ''DeploymentStage.'' @ deployStageName (with_default no_props props_arg')"
      using new_RestApi_stage [OF that(1,2)] by blast
    with st that(3) show ?thesis by auto
  qed
  have d: "deployStageName no_props = ''prod''"
    by (simp add: deployStageName_def or_else_def no_props_def)
  have lit: "n \<noteq> [] \<and> n' \<noteq> [] \<and> n \<noteq> n' \<longrightarrow>
        ''DeploymentStage.'' @ deployStageName (q\<lparr>deployOptions := Some \<lparr>stageName = Some n\<rparr>\<rparr>) \<noteq>
        ''DeploymentStage.'' @ deployStageName (q\<lparr>deployOptions := Some \<lparr>stageName = Some n'\<rparr>\<rparr>)"
    by (simp add: deployStageName_def or_else_def)
  from st full two d lit show ?thesis
    by (simp only: deployStageName_cases simp_thms) blast
qed

theorem stage_identifier_embeds_stage_name_witness:
  "deploy (with_default no_props
       (Some (no_props\<lparr>deployOptions := Some \<lparr>stageName = Some ''beta''\<rparr>\<rparr>))) \<noteq> Some False
   \<and> \<not> isl (new_RestApi demo_env [''Stack''] ''Api''
        (Some (no_props\<lparr>deployOptions := Some \<lparr>stageName = Some ''beta''\<rparr>\<rparr>)))
   \<and> map_option stage_id (deploymentStage (projr (new_RestApi demo_env [''Stack''] ''Api''
        (Some (no_props\<lparr>deployOptions := Some \<lparr>stageName = Some ''beta''\<rparr>\<rparr>))))) =
       Some ''DeploymentStage.beta''
   \<and> map_option stage_stageName (deploymentStage (projr (new_RestApi demo_env [''Stack''] ''Api''
        (Some (no_props\<lparr>deployOptions := Some \<lparr>stageName = Some ''beta''\<rparr>\<rparr>))))) =
       Some (Some ''beta'')
   \<and> deploy (with_default no_props None) \<noteq> Some False
   \<and> \<not> isl (new_RestApi demo_env [''Stack''] ''Api'' None)
   \<and> deployStageName (with_default no_props
        (Some (no_props\<lparr>deployOptions := Some \<lparr>stageName = Some ''beta''\<rparr>\<rparr>))) \<noteq>
       deployStageName (with_default no_props None)
   \<and> map_option stage_id (deploymentStage (projr (new_RestApi demo_env [''Stack''] ''Api''
        (Some (no_props\<lparr>deployOptions := Some \<lparr>stageName = Some ''beta''\<rparr>\<rparr>))))) \<noteq>
     map_option stage_id (deploymentStage (projr (new_RestApi demo_env [''Stack''] ''Api'' None)))
   \<and> ''beta'' \<noteq> [] \<and> ''gamma'' \<noteq> [] \<and> ''beta'' \<noteq> ''gamma''
   \<and> ''DeploymentStage.'' @
        deployStageName (no_props\<lparr>deployOptions := Some \<lparr>stageName = Some ''beta''\<rparr>\<rparr>) \<noteq>
      ''DeploymentStage.'' @
        deployStageName (no_props\<lparr>deployOptions := Some \<lparr>stageName = Some ''gamma''\<rparr>\<rparr>)"
proof -
  define b where "b = Some (no_props\<lparr>deployOptions := Some \<lparr>stageName = Some ''beta''\<rparr>\<rparr>)"
  have hb: "deploy (with_default no_props b) \<noteq> Some False"
    by (simp add: b_def with_default_def no_props_def)
  have hn: "deploy (with_default no_props None) \<noteq> Some False"
    by (simp add: with_default_def no_props_def)
  have nb: "deployStageName (with_default no_props b) = ''beta''"
    by (simp add: b_def with_default_def deployStageName_def or_else_def)
  have nn: "deployStageName (with_default no_props None) = ''prod''"
    by (simp add: with_default_def deployStageName_def or_else_def no_props_def)
  have ob: "deployOptions (with_default no_props b) = Some \<lparr>stageName = Some ''beta''\<rparr>"
    by (simp add: b_def with_default_def)
  have hl: "''beta'' \<noteq> [] \<and> ''gamma'' \<noteq> [] \<and> ''beta'' \<noteq> ''gamma''"
    by simp
  have rb: "\<not> isl (new_RestApi demo_env [''Stack''] ''Api'' b)"
    by (simp add: b_def new_RestApi_isl with_default_def no_props_def demo_env_def demo_url_def
        startsWith_def)
  then obtain api where api: "new_RestApi demo_env [''Stack''] ''Api'' b = Inr api"
    by (cases "new_RestApi demo_env [''Stack''] ''Api'' b") simp_all
  from demo_api_returns obtain api' where api': "new_RestApi demo_env [''Stack''] ''Api'' None = Inr api'"
    by (cases "new_RestApi demo_env [''Stack''] ''Api'' None") simp_all
  note inst = stage_identifier_embeds_stage_name [OF hb api, where props_arg' = None
      and env' = demo_env and parent' = "[''Stack'']" and ident' = "''Api''" and api' = api'
      and n = "''beta''" and n' = "''gamma''" and q = no_props]
  from inst hn api' nb nn ob
  have ids: "map_option stage_id (deploymentStage api) = Some ''DeploymentStage.beta''
    \<and> map_option stage_stageName (deploymentStage api) = Some (Some ''beta'')
    \<and> map_option stage_id (deploymentStage api) \<noteq> map_option stage_id (deploymentStage api')"
    by auto
  from inst hl
  have lit: "''DeploymentStage.'' @
        deployStageName (no_props\<lparr>deployOptions := Some \<lparr>stageName = Some ''beta''\<rparr>\<rparr>) \<noteq>
      ''DeploymentStage.'' @
        deployStageName (no_props\<lparr>deployOptions := Some \<lparr>stageName = Some ''gamma''\<rparr>\<rparr>)"
    by blast
  from hb hn nb nn ids lit rb demo_api_returns show ?thesis
    unfolding b_def [symmetric] api api' by simp
qed


section \<open>Group: the claims\<close>

lemma managedPolicies_attach:
  "managedPolicies (foldl attachManagedPolicy g arns) = managedPolicies g @ arns"
  by (induction arns arbitrary: g) (simp_all add: attachManagedPolicy_def)

lemma new_Group_fields:
  "defaultPolicy (fst (new_Group parent name props_arg)) = None"
  "group_children (fst (new_Group parent name props_arg)) = [''Resource'']"
  "group_path (fst (new_Group parent name props_arg)) = parent @ [name]"
  "managedPolicies (fst (new_Group parent name props_arg)) =
     with_default [] (managedPolicyArns (with_default no_group_props props_arg))"
  by (simp_all add: new_Group_def Let_def)

lemma addToPolicy_unset:
  assumes "defaultPolicy g = None"
  shows "addToPolicy g s =
     g\<lparr>defaultPolicy := Some \<lparr>policy_path = group_path g @ [''DefaultPolicy''],
                               statements = [s], groups = [group_path g]\<rparr>,
       group_children := group_children g @ [''DefaultPolicy'']\<rparr>"
  using assms
  by (simp add: addToPolicy_def Let_def new_Policy_def Policy_attachToGroup_def
      Policy_addStatement_def)

lemma addToPolicy_set:
  assumes "defaultPolicy g = Some p"
  shows "addToPolicy g s = g\<lparr>defaultPolicy := Some (p\<lparr>statements := statements p @ [s]\<rparr>)\<rparr>"
  using assms by (simp add: addToPolicy_def Policy_addStatement_def)

lemma addToPolicy_many_set:
  assumes "defaultPolicy g = Some p"
  shows "foldl addToPolicy g ss = g\<lparr>defaultPolicy := Some (p\<lparr>statements := statements p @ ss\<rparr>)\<rparr>"
  using assms
proof (induction ss arbitrary: g p)
  case Nil
  then show ?case by simp
next
  case (Cons s ss)
  have "defaultPolicy (addToPolicy g s) = Some (p\<lparr>statements := statements p @ [s]\<rparr>)"
    by (simp add: addToPolicy_set [OF Cons.prems])
  from Cons.IH [OF this] show ?case
    by (simp add: addToPolicy_set [OF Cons.prems])
qed

lemma addToPolicy_many_unset:
  assumes "defaultPolicy g = None"
  shows "foldl addToPolicy g (s # ss) =
     g\<lparr>defaultPolicy := Some \<lparr>policy_path = group_path g @ [''DefaultPolicy''],
                               statements = s # ss, groups = [group_path g]\<rparr>,
       group_children := group_children g @ [''DefaultPolicy'']\<rparr>"
proof -
  have "defaultPolicy (addToPolicy g s) =
      Some \<lparr>policy_path = group_path g @ [''DefaultPolicy''], statements = [s],
            groups = [group_path g]\<rparr>"
    by (simp add: addToPolicy_unset [OF assms])
  from addToPolicy_many_set [OF this, of ss] show ?thesis
    by (simp add: addToPolicy_unset [OF assms])
qed

text \<open>
  Claim C5. Any sequence of \<open>addToPolicy\<close> calls on a \<open>Group\<close> creates the default
  inline policy exactly once, on the first call (one child \<open>DefaultPolicy\<close> is added),
  attaches it to the group exactly once, and appends every statement to that one policy,
  in call order; a group that already has its default policy gets no new child. Two calls
  on a new group yield one policy holding the two statements.
\<close>

theorem addToPolicy_single_default_policy:
  "(defaultPolicy g = None \<longrightarrow>
      foldl addToPolicy g (s # ss) =
        g\<lparr>defaultPolicy := Some \<lparr>policy_path = group_path g @ [''DefaultPolicy''],
                                  statements = s # ss, groups = [group_path g]\<rparr>,
          group_children := group_children g @ [''DefaultPolicy'']\<rparr>)
   \<and> (defaultPolicy h = Some p \<longrightarrow>
      foldl addToPolicy h ss = h\<lparr>defaultPolicy := Some (p\<lparr>statements := statements p @ ss\<rparr>)\<rparr>)
   \<and> defaultPolicy (fst (new_Group parent name props_arg)) = None
   \<and> count_list
        (group_children (foldl addToPolicy (fst (new_Group parent name props_arg)) (s # ss)))
        ''DefaultPolicy'' = 1
   \<and> defaultPolicy (foldl addToPolicy (fst (new_Group parent name props_arg)) [s1, s2]) =
        Some \<lparr>policy_path = parent @ [name, ''DefaultPolicy''], statements = [s1, s2],
              groups = [parent @ [name]]\<rparr>"
  using addToPolicy_many_unset [of g s ss] addToPolicy_many_set [of h p ss]
    addToPolicy_many_unset [OF new_Group_fields(1), of parent name props_arg s ss]
    addToPolicy_many_unset [OF new_Group_fields(1), of parent name props_arg s1 "[s2]"]
  by (simp add: new_Group_fields del: foldl_Cons)

theorem addToPolicy_single_default_policy_witness:
  "defaultPolicy (fst (new_Group [''Stack''] ''Admins'' None)) = None
   \<and> defaultPolicy
       (foldl addToPolicy (fst (new_Group [''Stack''] ''Admins'' None))
          [PolicyStatement ''read'', PolicyStatement ''write'']) =
       Some \<lparr>policy_path = [''Stack'', ''Admins'', ''DefaultPolicy''],
             statements = [PolicyStatement ''read'', PolicyStatement ''write''],
             groups = [[''Stack'', ''Admins'']]\<rparr>
   \<and> group_children
       (foldl addToPolicy (fst (new_Group [''Stack''] ''Admins'' None))
          [PolicyStatement ''read'', PolicyStatement ''write'']) =
       [''Resource'', ''DefaultPolicy'']
   \<and> defaultPolicy (addToPolicy (fst (new_Group [''Stack''] ''Admins'' None))
          (PolicyStatement ''read'')) =
       Some \<lparr>policy_path = [''Stack'', ''Admins'', ''DefaultPolicy''],
             statements = [PolicyStatement ''read''],
             groups = [[''Stack'', ''Admins'']]\<rparr>
   \<and> foldl addToPolicy
         (addToPolicy (fst (new_Group [''Stack''] ''Admins'' None)) (PolicyStatement ''read''))
         [PolicyStatement ''write''] =
       (addToPolicy (fst (new_Group [''Stack''] ''Admins'' None)) (PolicyStatement ''read''))
         \<lparr>defaultPolicy :=
            Some \<lparr>policy_path = [''Stack'', ''Admins'', ''DefaultPolicy''],
                  statements = [PolicyStatement ''read'', PolicyStatement ''write''],
                  groups = [[''Stack'', ''Admins'']]\<rparr>\<rparr>"
proof -
  define g where "g = fst (new_Group [''Stack''] ''Admins'' None)"
  define h where "h = addToPolicy g (PolicyStatement ''read'')"
  define p where "p = \<lparr>policy_path = [''Stack'', ''Admins'', ''DefaultPolicy''],
      statements = [PolicyStatement ''read''], groups = [[''Stack'', ''Admins'']]\<rparr>"
  have g: "defaultPolicy g = None" "group_path g = [''Stack'', ''Admins'']"
    "group_children g = [''Resource'']"
    by (simp_all add: g_def new_Group_def Let_def)
  have h: "defaultPolicy h = Some p"
    by (simp add: h_def p_def addToPolicy_def Let_def new_Policy_def Policy_attachToGroup_def
        Policy_addStatement_def g)
  from addToPolicy_single_default_policy
    [where g = g and s = "PolicyStatement ''read''" and ss = "[PolicyStatement ''write'']"
      and h = h and p = p] g h
  show ?thesis
    unfolding g_def [symmetric] h_def [symmetric]
    by (simp add: p_def)
qed

text \<open>
  Claim C6. \<open>N\<close> calls of \<open>attachManagedPolicy\<close>, with the same or different ARNs,
  grow the managed-policy list by exactly \<open>N\<close> entries in call order: nothing is
  de-duplicated and no bound is checked (the method returns for every list). On a
  \<open>Group\<close> constructed without managed policies the list is then exactly the ARNs
  attached, of length \<open>N\<close>.
\<close>

theorem attachManagedPolicy_appends:
  "managedPolicies (attachManagedPolicy g arn) = managedPolicies g @ [arn]
   \<and> managedPolicies (foldl attachManagedPolicy g arns) = managedPolicies g @ arns
   \<and> length (managedPolicies (foldl attachManagedPolicy g arns)) =
       length (managedPolicies g) + length arns
   \<and> managedPolicies (foldl attachManagedPolicy g (replicate n arn)) =
       managedPolicies g @ replicate n arn
   \<and> managedPolicies
        (foldl attachManagedPolicy
           (fst (new_Group parent name (Some (props\<lparr>managedPolicyArns := None\<rparr>)))) arns) = arns
   \<and> managedPolicies (foldl attachManagedPolicy (fst (new_Group parent name None)) arns) = arns
   \<and> managedPolicies (foldl attachManagedPolicy (fst (new_Group parent name props_arg)) arns) =
       with_default [] (managedPolicyArns (with_default no_group_props props_arg)) @ arns
   \<and> length (managedPolicies
        (foldl attachManagedPolicy (fst (new_Group parent name None)) (replicate n arn))) = n"
  by (simp add: managedPolicies_attach attachManagedPolicy_def new_Group_fields with_default_def
      no_group_props_def)

text \<open>
  Claim C9. \<open>g.addUser(u)\<close> only invokes \<open>u.addToGroup(g)\<close>: the user's own
  membership bookkeeping now holds the group, and every field of the group (the
  managed-policy list, the attached policies, the default policy, its children) is
  unchanged. The group keeps no membership list.
\<close>

theorem addUser_delegates_to_user:
  "fst (addUser g u) = g
   \<and> snd (addUser g u) = User_addToGroup u g
   \<and> memberOf (snd (addUser g u)) = memberOf u @ [group_path g]
   \<and> managedPolicies (fst (addUser g u)) = managedPolicies g
   \<and> attachedPolicies (fst (addUser g u)) = attachedPolicies g
   \<and> defaultPolicy (fst (addUser g u)) = defaultPolicy g
   \<and> group_children (fst (addUser g u)) = group_children g"
  by (simp add: addUser_def User_addToGroup_def)

text \<open>
  Claim C10. The constructor hands the managed-policy list to the generated resource as a
  deferred value over the object's list, not as a snapshot: read in any later state of the
  group, the resource's \<open>managedPolicyArns\<close> is the list of that state, so the ARNs
  attached after construction appear in it, after those given to the constructor; and
  while the list is empty the property is unset rather than an empty array.
\<close>

theorem managedPolicyArns_deferred:
  "cfn_managedPolicyArns (snd (new_Group parent name props_arg)) g =
     (case managedPolicies g of [] \<Rightarrow> None | x # xs \<Rightarrow> Some (x # xs))
   \<and> cfn_managedPolicyArns (snd (new_Group parent name props_arg))
       (foldl attachManagedPolicy (fst (new_Group parent name props_arg)) arns) =
     (case with_default [] (managedPolicyArns (with_default no_group_props props_arg)) @ arns of
        [] \<Rightarrow> None
      | x # xs \<Rightarrow> Some (x # xs))
   \<and> cfn_managedPolicyArns (snd (new_Group parent name None)) (fst (new_Group parent name None)) = None
   \<and> cfn_managedPolicyArns (snd (new_Group parent name None))
        (foldl attachManagedPolicy (fst (new_Group parent name None)) (arn # arns)) =
       Some (arn # arns)"
proof -
  have read: "cfn_managedPolicyArns (snd (new_Group parent name a)) g' =
     (case managedPolicies g' of [] \<Rightarrow> None | x # xs \<Rightarrow> Some (x # xs))" for a g'
    by (simp add: new_Group_def undefinedIfEmpty_def Let_def)
  show ?thesis
    unfolding read managedPolicies_attach new_Group_fields
    by (simp add: with_default_def no_group_props_def)
qed


end
